theory Spec2Isabelle
  imports Main "HOL-Library.Word"
begin

section \<open>The error-handling header \<^verbatim>\<open>src/core/error_handling.h\<close>\<close>

text \<open>
  The header consists of two families of macros.
  \<^item> \<^verbatim>\<open>EM_JS_REF\<close> and \<^verbatim>\<open>EM_JS_NUM\<close> generate a JavaScript function around a
    \<^verbatim>\<open>body\<close> block: \<^verbatim>\<open>try body catch (e) { ... }\<close> followed by one last statement.
  \<^item> \<^verbatim>\<open>FAIL\<close>, \<^verbatim>\<open>FAIL_IF_NULL\<close>, \<^verbatim>\<open>FAIL_IF_MINUS_ONE\<close> and
    \<^verbatim>\<open>FAIL_IF_ERR_OCCURRED\<close> are C statements that may \<^verbatim>\<open>goto finally\<close>;
    \<^verbatim>\<open>FAIL\<close> has one definition under \<^verbatim>\<open>#ifdef DEBUG_F\<close> and another without.
  Both families are embedded as state transformers that return how the statement
  completed together with the new state; a macro whose expansion is not a C statement
  gives a compile error instead.
\<close>

subsection \<open>JavaScript side: completions and statement combinators\<close>

text \<open>
  The values the generated JavaScript handles: the numbers \<^verbatim>\<open>0\<close> and \<^verbatim>\<open>-1\<close>,
  \<^verbatim>\<open>new Error(msg)\<close>, and whatever else a body returns or throws (an object,
  identified by a number, or a string).
\<close>

datatype js_value =
    JsNumber int
  | JsError string
  | JsString string
  | JsObject nat
  | JsUndefined

text \<open>
  A JavaScript statement completes normally, with \<^verbatim>\<open>return v\<close>, or with
  \<^verbatim>\<open>throw v\<close>.
\<close>

datatype completion = Normal | Return js_value | Throw js_value

text \<open>
  The part of the JavaScript state the wrappers can touch: the exceptions handed to
  \<^verbatim>\<open>Module.handle_js_error\<close>, oldest first. Every other piece of state is the
  extension part of the record.
\<close>

record js_state =
  handed_off :: "js_value list"

type_synonym 'a js = "'a js_state_scheme \<Rightarrow> completion \<times> 'a js_state_scheme"

text \<open>\<^verbatim>\<open>a; b\<close>: \<open>b\<close> runs only when \<open>a\<close> completes normally.\<close>

definition js_seq :: "'a js \<Rightarrow> 'a js \<Rightarrow> 'a js" where
  "js_seq a b s = (case a s of (Normal, s1) \<Rightarrow> b s1 | (c, s1) \<Rightarrow> (c, s1))"

text \<open>
  \<^verbatim>\<open>try blk catch (e) { handler }\<close>: the handler runs, with \<open>e\<close> bound to the thrown
  value, only when the block throws; a normal or \<^verbatim>\<open>return\<close> completion of the block is
  the completion of the whole statement.
\<close>

definition js_try_catch :: "'a js \<Rightarrow> (js_value \<Rightarrow> 'a js) \<Rightarrow> 'a js" where
  "js_try_catch blk handler s =
     (case blk s of (Throw e, s1) \<Rightarrow> handler e s1 | (c, s1) \<Rightarrow> (c, s1))"

definition js_throw :: "js_value \<Rightarrow> 'a js" where
  "js_throw v s = (Throw v, s)"

definition js_return :: "js_value \<Rightarrow> 'a js" where
  "js_return v s = (Return v, s)"

text \<open>The directive \<^verbatim>\<open>"use strict";\<close> is an expression statement without effect.\<close>

definition use_strict :: "'a js" where
  "use_strict s = (Normal, s)"

text \<open>
  Modelled from the spec: \<^verbatim>\<open>Module.handle_js_error\<close> is defined outside this header.
  The spec calls it the hand-off call that converts the caught exception into an error
  object of the embedded interpreter. The model records the exception handed over and
  completes normally.
\<close>

definition handle_js_error :: "js_value \<Rightarrow> 'a js" where
  "handle_js_error e s = (Normal, s\<lparr>handed_off := handed_off s @ [e]\<rparr>)"

subsection \<open>The wrappers \<^verbatim>\<open>EM_JS_REF\<close> and \<^verbatim>\<open>EM_JS_NUM\<close>\<close>

text \<open>
  The catch blocks, statement by statement:
  \<^verbatim>\<open>throw e; Module.handle_js_error(e); return 0;\<close> and
  \<^verbatim>\<open>throw e; Module.handle_js_error(e); return -1;\<close>
\<close>

definition EM_JS_REF_catch :: "js_value \<Rightarrow> 'a js" where
  "EM_JS_REF_catch e =
     js_seq (js_throw e) (js_seq (handle_js_error e) (js_return (JsNumber 0)))"

definition EM_JS_NUM_catch :: "js_value \<Rightarrow> 'a js" where
  "EM_JS_NUM_catch e =
     js_seq (js_throw e) (js_seq (handle_js_error e) (js_return (JsNumber (- 1))))"

definition assertion_message :: string where
  "assertion_message = ''Assertion error: control reached end of function without return''"

text \<open>
  The generated function bodies. The macro parameter \<^verbatim>\<open>body\<close> is an arbitrary
  JavaScript block, hence an arbitrary transformer of the state with a completion.
\<close>

definition EM_JS_REF :: "'a js \<Rightarrow> 'a js" where
  "EM_JS_REF body =
     js_seq use_strict
       (js_seq (js_try_catch body EM_JS_REF_catch)
               (js_throw (JsError assertion_message)))"

definition EM_JS_NUM :: "'a js \<Rightarrow> 'a js" where
  "EM_JS_NUM body =
     js_seq use_strict
       (js_seq (js_try_catch body EM_JS_NUM_catch)
               (js_return (JsNumber 0)))"

text \<open>Concrete inputs: an empty hand-off record, a body that throws, an empty body.\<close>

definition js0 :: js_state where
  "js0 = \<lparr>handed_off = []\<rparr>"

definition throwing_body :: "unit js" where
  "throwing_body = js_throw (JsError ''boom'')"

definition empty_body :: "unit js" where
  "empty_body s = (Normal, s)"

subsection \<open>C side: values, control and state\<close>

text \<open>
  The target is 32-bit WebAssembly: a pointer is a 32-bit address and \<^verbatim>\<open>NULL\<close> is
  address 0; \<^verbatim>\<open>typedef int errcode\<close> is a 32-bit integer (read as signed by
  \<open>sint\<close>, so that \<open>- 1\<close> is the word of all ones).
\<close>

type_synonym ptr = "32 word"

type_synonym errcode = "32 word"

definition NULL :: ptr where
  "NULL = 0"

text \<open>
  A macro of the failure family is one C statement. It either falls through to the
  statement after it or executes \<^verbatim>\<open>goto finally\<close>.
\<close>

datatype control = Fallthrough | Goto_finally

text \<open>
  The state the macros can read or write:
  \<^item> \<open>curexc_type\<close>: the interpreter's error indicator, the pointer that
    \<^verbatim>\<open>PyErr_Occurred()\<close> returns (\<^verbatim>\<open>NULL\<close> when no error is pending);
  \<^item> \<open>calls\<close>: the calls made to functions defined outside the header
    (\<^verbatim>\<open>asprintf\<close>, \<^verbatim>\<open>log_error\<close>, \<^verbatim>\<open>free\<close>), oldest first, each with its
    argument expressions as written. Logging and allocation happen through these calls
    only.
  Every variable of the calling function is in the extension part of the record.
\<close>

record c_state =
  curexc_type :: ptr
  calls :: "(string \<times> string list) list"

type_synonym 'a c_stmt = "'a c_state_scheme \<Rightarrow> control \<times> 'a c_state_scheme"

text \<open>\<^verbatim>\<open>a; b\<close> in C: after \<^verbatim>\<open>goto finally\<close> the rest of the block is skipped.\<close>

definition c_seq :: "'a c_stmt \<Rightarrow> 'a c_stmt \<Rightarrow> 'a c_stmt" where
  "c_seq a b s = (case a s of (Fallthrough, s1) \<Rightarrow> b s1 | (Goto_finally, s1) \<Rightarrow> (Goto_finally, s1))"

text \<open>
  \<^verbatim>\<open>PyErr_Occurred()\<close> of the interpreter's C API: a query that returns the pending
  exception type, or \<^verbatim>\<open>NULL\<close>, and changes nothing.
\<close>

definition PyErr_Occurred :: "'a c_state_scheme \<Rightarrow> ptr" where
  "PyErr_Occurred s = curexc_type s"

subsection \<open>The two definitions of \<^verbatim>\<open>FAIL()\<close>, as written\<close>

text \<open>
  The items that the definitions of \<^verbatim>\<open>FAIL()\<close> are made of: a declaration
  (\<^verbatim>\<open>char* msg\<close>), a call of an outside function, and \<^verbatim>\<open>goto finally\<close>. In C each
  of them is a declaration, an expression statement or a jump statement, and each must
  end in \<^verbatim>\<open>;\<close>. An item is therefore paired with a flag: is it followed by \<^verbatim>\<open>;\<close>
  in the text?
\<close>

datatype c_code =
    Declare string string
  | Call string "string list"
  | Jump_finally

datatype compile_error = Syntax_error

text \<open>
  What an item does when it runs. Of a call the model keeps that it was made; what the
  outside function does or returns is not modelled.
\<close>

primrec exec :: "c_code \<Rightarrow> 'a c_stmt" where
  "exec (Declare ty v) = (\<lambda>s. (Fallthrough, s))"
| "exec (Call f args) = (\<lambda>s. (Fallthrough, s\<lparr>calls := calls s @ [(f, args)]\<rparr>))"
| "exec Jump_finally = (\<lambda>s. (Goto_finally, s))"

text \<open>
  A sequence of items is a piece of a C block only if every item ends in \<^verbatim>\<open>;\<close>.
  Then it runs its items in order; otherwise the translation unit does not compile.
\<close>

primrec compile_block :: "(c_code \<times> bool) list \<Rightarrow> compile_error + 'a c_stmt" where
  "compile_block [] = Inr (\<lambda>s. (Fallthrough, s))"
| "compile_block (item # rest) =
     (if \<not> snd item then Inl Syntax_error
      else case compile_block rest of
             Inl err \<Rightarrow> Inl err
           | Inr k \<Rightarrow> Inr (c_seq (exec (fst item)) k))"

text \<open>
  The string literal
  \<^verbatim>\<open>"Raised exception on line %d in func %s, file %s\n"\<close>
  as written (the last two characters are a backslash and \<open>n\<close>).
\<close>

definition fail_format :: string where
  "fail_format =
     ''Raised exception on line %d in func %s, file %s'' @ [CHR 0x5C, CHR ''n'']"

text \<open>
  A use \<^verbatim>\<open>FAIL();\<close> after macro replacement.

  With \<^verbatim>\<open>DEBUG_F\<close> (lines 91 to 102) it is
  \<^verbatim>\<open>do { char* msg; asprintf(&msg, "...", __LINE__, __func__, __FILE__); log_error(msg); free(msg); goto finally } while (0);\<close>
  The \<^verbatim>\<open>;\<close> of the use ends the \<^verbatim>\<open>do ... while (0)\<close>; inside the block,
  \<^verbatim>\<open>goto finally\<close> is followed by \<^verbatim>\<open>}\<close>, not by \<^verbatim>\<open>;\<close>.

  Without \<^verbatim>\<open>DEBUG_F\<close> (line 105) it is \<^verbatim>\<open>goto finally;\<close> with the \<^verbatim>\<open>;\<close> of
  the use.
\<close>

definition FAIL_items :: "bool \<Rightarrow> (c_code \<times> bool) list" where
  "FAIL_items DEBUG_F =
     (if DEBUG_F then
        [(Declare ''char*'' ''msg'', True),
         (Call ''asprintf'' [''&msg'', fail_format, ''__LINE__'', ''__func__'', ''__FILE__''],
          True),
         (Call ''log_error'' [''msg''], True),
         (Call ''free'' [''msg''], True),
         (Jump_finally, False)]
      else [(Jump_finally, True)])"

subsection \<open>The failure macros\<close>

text \<open>
  The result of a macro in a build: a compile error, or how the statement completes
  and the state after it.
\<close>

type_synonym 'a outcome = "compile_error + control \<times> 'a c_state_scheme"

definition FAIL :: "bool \<Rightarrow> 'a c_state_scheme \<Rightarrow> 'a outcome" where
  "FAIL DEBUG_F s =
     (case compile_block (FAIL_items DEBUG_F) of
        Inl err \<Rightarrow> Inl err
      | Inr fail \<Rightarrow> Inr (fail s))"

text \<open>
  \<^verbatim>\<open>do { if (ref == NULL) { FAIL(); } } while (0)\<close>: the \<^verbatim>\<open>do ... while (0)\<close>
  runs its block once. The guard is evaluated when the statement runs; whether
  \<^verbatim>\<open>FAIL();\<close> is a statement is settled when the file is compiled.
\<close>

definition FAIL_IF_NULL :: "bool \<Rightarrow> ptr \<Rightarrow> 'a c_state_scheme \<Rightarrow> 'a outcome" where
  "FAIL_IF_NULL DEBUG_F ref s =
     (case compile_block (FAIL_items DEBUG_F) of
        Inl err \<Rightarrow> Inl err
      | Inr fail \<Rightarrow> Inr (if ref = NULL then fail s else (Fallthrough, s)))"

text \<open>\<^verbatim>\<open>do { if (num != 0) { FAIL(); } } while (0)\<close>\<close>

definition FAIL_IF_MINUS_ONE :: "bool \<Rightarrow> errcode \<Rightarrow> 'a c_state_scheme \<Rightarrow> 'a outcome" where
  "FAIL_IF_MINUS_ONE DEBUG_F num s =
     (case compile_block (FAIL_items DEBUG_F) of
        Inl err \<Rightarrow> Inl err
      | Inr fail \<Rightarrow> Inr (if num \<noteq> 0 then fail s else (Fallthrough, s)))"

text \<open>
  \<^verbatim>\<open>do { if (PyErr_Occurred()) { FAIL(); } } while (0)\<close>: a pointer is true when it
  is not null.
\<close>

definition FAIL_IF_ERR_OCCURRED :: "bool \<Rightarrow> 'a c_state_scheme \<Rightarrow> 'a outcome" where
  "FAIL_IF_ERR_OCCURRED DEBUG_F s =
     (case compile_block (FAIL_items DEBUG_F) of
        Inl err \<Rightarrow> Inl err
      | Inr fail \<Rightarrow> Inr (if PyErr_Occurred s \<noteq> NULL then fail s else (Fallthrough, s)))"

text \<open>Does the outcome transfer control to the cleanup point?\<close>

definition transfers :: "'a outcome \<Rightarrow> bool" where
  "transfers r = (case r of Inl err \<Rightarrow> False | Inr (c, s) \<Rightarrow> c = Goto_finally)"

text \<open>Concrete inputs: a state without a pending error, and the same state with one.\<close>

definition c0 :: c_state where
  "c0 = \<lparr>curexc_type = 0, calls = []\<rparr>"

definition c_err :: c_state where
  "c_err = \<lparr>curexc_type = 0x5000, calls = []\<rparr>"

subsection \<open>Properties of the wrappers\<close>

lemma js_seq_throw: "js_seq (js_throw e) k s = (Throw e, s)"
  by (simp add: js_seq_def js_throw_def)

lemma js_seq_use_strict: "js_seq use_strict k s = k s"
  by (simp add: js_seq_def use_strict_def)

lemma handle_js_error_records:
  "handed_off (snd (handle_js_error e s)) = handed_off s @ [e]"
  by (simp add: handle_js_error_def)

lemma REF_catch_eq: "EM_JS_REF_catch e s = (Throw e, s)"
  by (simp add: EM_JS_REF_catch_def js_seq_throw)

lemma NUM_catch_eq: "EM_JS_NUM_catch e s = (Throw e, s)"
  by (simp add: EM_JS_NUM_catch_def js_seq_throw)

lemma REF_on_throw: "body s = (Throw e, s1) \<Longrightarrow> EM_JS_REF body s = (Throw e, s1)"
  by (simp add: EM_JS_REF_def use_strict_def js_seq_def js_try_catch_def REF_catch_eq)

lemma NUM_on_throw: "body s = (Throw e, s1) \<Longrightarrow> EM_JS_NUM body s = (Throw e, s1)"
  by (simp add: EM_JS_NUM_def use_strict_def js_seq_def js_try_catch_def NUM_catch_eq)

lemma REF_on_return: "body s = (Return v, s1) \<Longrightarrow> EM_JS_REF body s = (Return v, s1)"
  by (simp add: EM_JS_REF_def use_strict_def js_seq_def js_try_catch_def)

lemma NUM_on_return: "body s = (Return v, s1) \<Longrightarrow> EM_JS_NUM body s = (Return v, s1)"
  by (simp add: EM_JS_NUM_def use_strict_def js_seq_def js_try_catch_def)

lemma REF_on_normal:
  "body s = (Normal, s1) \<Longrightarrow> EM_JS_REF body s = (Throw (JsError assertion_message), s1)"
  by (simp add: EM_JS_REF_def use_strict_def js_seq_def js_try_catch_def js_throw_def)

lemma NUM_on_normal:
  "body s = (Normal, s1) \<Longrightarrow> EM_JS_NUM body s = (Return (JsNumber 0), s1)"
  by (simp add: EM_JS_NUM_def use_strict_def js_seq_def js_try_catch_def js_return_def)

lemma throwing_body_eq: "throwing_body js0 = (Throw (JsError ''boom''), js0)"
  by (simp add: throwing_body_def js_throw_def)

lemma empty_body_eq: "empty_body js0 = (Normal, js0)"
  by (simp add: empty_body_def)

text \<open>
  C1 (as stated): when the body throws, \<^verbatim>\<open>EM_JS_REF\<close> returns 0 and \<^verbatim>\<open>EM_JS_NUM\<close>
  returns -1. On a body that throws \<^verbatim>\<open>new Error("boom")\<close> neither wrapper returns
  its sentinel.
\<close>

theorem C1_sentinel_return_counterexample:
  "fst (EM_JS_REF throwing_body js0) \<noteq> Return (JsNumber 0) \<and>
   fst (EM_JS_NUM throwing_body js0) \<noteq> Return (JsNumber (- 1))"
  using REF_on_throw [of throwing_body js0 "JsError ''boom''" js0]
    NUM_on_throw [of throwing_body js0 "JsError ''boom''" js0] throwing_body_eq
  by simp

text \<open>
  C1 (amended): when the body throws an exception \<open>e\<close>, neither wrapper returns a
  value, so neither the sentinel 0 nor the status -1 is returned: both wrappers
  complete by throwing \<open>e\<close>.
\<close>

theorem C1_body_throw_is_thrown:
  assumes "body s = (Throw e, s1)"
  shows "fst (EM_JS_REF body s) = Throw e \<and> fst (EM_JS_NUM body s) = Throw e \<and>
         (\<nexists>v. fst (EM_JS_REF body s) = Return v) \<and>
         (\<nexists>v. fst (EM_JS_NUM body s) = Return v)"
  using assms REF_on_throw [of body s e s1] NUM_on_throw [of body s e s1] by simp

theorem C1_body_throw_is_thrown_witness:
  "throwing_body js0 = (Throw (JsError ''boom''), js0) \<and>
   fst (EM_JS_REF throwing_body js0) = Throw (JsError ''boom'') \<and>
   fst (EM_JS_NUM throwing_body js0) = Throw (JsError ''boom'')"
  using C1_body_throw_is_thrown [of throwing_body js0 "JsError ''boom''" js0] throwing_body_eq
  by simp

text \<open>
  C2: in both wrappers the catch block re-throws the caught exception at once;
  \<^verbatim>\<open>Module.handle_js_error(e)\<close> and the \<^verbatim>\<open>return\<close> after it are never executed. The
  catch block is \<^verbatim>\<open>throw e\<close> and nothing more, whatever the state; the wrapped
  function ends in the state the body left, with the record of hand-offs as the body
  left it.
\<close>

theorem C2_catch_rethrows_without_hand_off:
  assumes "body s = (Throw e, s1)"
  shows "EM_JS_REF body s = (Throw e, s1) \<and> EM_JS_NUM body s = (Throw e, s1) \<and>
         EM_JS_REF_catch e s1 = (Throw e, s1) \<and> EM_JS_NUM_catch e s1 = (Throw e, s1) \<and>
         handed_off (snd (EM_JS_REF body s)) = handed_off s1 \<and>
         handed_off (snd (EM_JS_NUM body s)) = handed_off s1"
  using assms REF_on_throw [of body s e s1] NUM_on_throw [of body s e s1]
  by (simp add: REF_catch_eq NUM_catch_eq)

theorem C2_catch_rethrows_without_hand_off_witness:
  "throwing_body js0 = (Throw (JsError ''boom''), js0) \<and>
   EM_JS_REF throwing_body js0 = (Throw (JsError ''boom''), js0) \<and>
   EM_JS_NUM throwing_body js0 = (Throw (JsError ''boom''), js0) \<and>
   handed_off (snd (EM_JS_REF throwing_body js0)) = [] \<and>
   handed_off (snd (EM_JS_NUM throwing_body js0)) = []"
  using C2_catch_rethrows_without_hand_off [of throwing_body js0 "JsError ''boom''" js0]
    throwing_body_eq
  by (simp add: js0_def)

text \<open>
  C5 (as stated): in both wrappers a body that ends without \<^verbatim>\<open>return\<close> makes the
  wrapper throw the assertion error. \<^verbatim>\<open>EM_JS_NUM\<close> around an empty body returns 0
  instead.
\<close>

theorem C5_NUM_does_not_trap_counterexample:
  "fst (EM_JS_NUM empty_body js0) \<noteq> Throw (JsError assertion_message) \<and>
   fst (EM_JS_NUM empty_body js0) = Return (JsNumber 0)"
  using NUM_on_normal [of empty_body js0 js0] empty_body_eq by simp

text \<open>
  C5 (amended): in the \<^verbatim>\<open>EM_JS_REF\<close> wrapper a body that ends without \<^verbatim>\<open>return\<close>
  and without throwing makes the wrapper throw
  \<^verbatim>\<open>new Error("Assertion error: control reached end of function without return")\<close>;
  no value is returned.
\<close>

theorem C5_REF_end_of_body_traps:
  assumes "body s = (Normal, s1)"
  shows "EM_JS_REF body s = (Throw (JsError assertion_message), s1) \<and>
         (\<nexists>v. fst (EM_JS_REF body s) = Return v)"
  using assms REF_on_normal [of body s s1] by simp

theorem C5_REF_end_of_body_traps_witness:
  "empty_body js0 = (Normal, js0) \<and>
   EM_JS_REF empty_body js0 =
     (Throw (JsError ''Assertion error: control reached end of function without return''), js0)"
  using C5_REF_end_of_body_traps [of empty_body js0 js0] empty_body_eq
  by (simp add: assertion_message_def)

text \<open>
  C6: in the \<^verbatim>\<open>EM_JS_NUM\<close> wrapper a body that ends without \<^verbatim>\<open>return\<close> and without
  throwing makes the wrapped function return 0.
\<close>

theorem C6_NUM_end_of_body_returns_0:
  assumes "body s = (Normal, s1)"
  shows "EM_JS_NUM body s = (Return (JsNumber 0), s1)"
  using assms by (rule NUM_on_normal [of body s s1])

theorem C6_NUM_end_of_body_returns_0_witness:
  "empty_body js0 = (Normal, js0) \<and> EM_JS_NUM empty_body js0 = (Return (JsNumber 0), js0)"
  using C6_NUM_end_of_body_returns_0 [of empty_body js0 js0] empty_body_eq by simp

subsection \<open>Properties of the failure macros\<close>

lemma compile_FAIL_plain:
  "compile_block (FAIL_items False) = Inr (c_seq (exec Jump_finally) (\<lambda>s. (Fallthrough, s)))"
  by (simp add: FAIL_items_def)

lemma compile_FAIL_debug: "compile_block (FAIL_items True) = Inl Syntax_error"
  by (simp add: FAIL_items_def)

lemma FAIL_plain: "FAIL False s = Inr (Goto_finally, s)"
  by (simp add: FAIL_def compile_FAIL_plain c_seq_def)

lemma FAIL_debug: "FAIL True s = Inl Syntax_error"
  by (simp add: FAIL_def compile_FAIL_debug)

lemma FAIL_IF_NULL_plain:
  "FAIL_IF_NULL False ref s = Inr (if ref = NULL then Goto_finally else Fallthrough, s)"
  by (simp add: FAIL_IF_NULL_def compile_FAIL_plain c_seq_def)

lemma FAIL_IF_MINUS_ONE_plain:
  "FAIL_IF_MINUS_ONE False num s = Inr (if num \<noteq> 0 then Goto_finally else Fallthrough, s)"
  by (simp add: FAIL_IF_MINUS_ONE_def compile_FAIL_plain c_seq_def)

lemma FAIL_IF_ERR_OCCURRED_plain:
  "FAIL_IF_ERR_OCCURRED False s =
     Inr (if PyErr_Occurred s \<noteq> NULL then Goto_finally else Fallthrough, s)"
  by (simp add: FAIL_IF_ERR_OCCURRED_def compile_FAIL_plain c_seq_def)

lemma FAIL_IF_NULL_debug: "FAIL_IF_NULL True ref s = Inl Syntax_error"
  by (simp add: FAIL_IF_NULL_def compile_FAIL_debug)

lemma FAIL_IF_MINUS_ONE_debug: "FAIL_IF_MINUS_ONE True num s = Inl Syntax_error"
  by (simp add: FAIL_IF_MINUS_ONE_def compile_FAIL_debug)

lemma FAIL_IF_ERR_OCCURRED_debug: "FAIL_IF_ERR_OCCURRED True s = Inl Syntax_error"
  by (simp add: FAIL_IF_ERR_OCCURRED_def compile_FAIL_debug)

lemma c0_clear: "PyErr_Occurred c0 = NULL"
  by (simp add: PyErr_Occurred_def c0_def NULL_def)

lemma c_err_set: "PyErr_Occurred c_err \<noteq> NULL"
  by (simp add: PyErr_Occurred_def c_err_def NULL_def)

text \<open>
  C3: \<^verbatim>\<open>FAIL_IF_MINUS_ONE(num)\<close> transfers control exactly when \<open>num\<close> is -1, as
  the header's comment \<^verbatim>\<open>FAIL_IF_MINUS_ONE(num) -- FAIL() if num == -1\<close> says. The
  macro tests \<^verbatim>\<open>num != 0\<close>: at the status 1, which is not -1, control goes to
  \<^verbatim>\<open>finally\<close>.
\<close>

theorem C3_FAIL_IF_MINUS_ONE_fails_at_1:
  "FAIL_IF_MINUS_ONE False 1 c0 = Inr (Goto_finally, c0) \<and>
   transfers (FAIL_IF_MINUS_ONE False 1 c0) \<and>
   (1 :: errcode) \<noteq> - 1"
  by (simp add: FAIL_IF_MINUS_ONE_plain transfers_def)

text \<open>
  C4: \<^verbatim>\<open>FAIL_IF_MINUS_ONE(num)\<close> transfers control to the cleanup point if and only
  if \<open>num\<close> is not 0; at 0 it does nothing. This is so in the build without
  \<^verbatim>\<open>DEBUG_F\<close>, and in every build in which the statement compiles.
\<close>

theorem C4_FAIL_IF_MINUS_ONE_iff_nonzero:
  "transfers (FAIL_IF_MINUS_ONE False num s) = (num \<noteq> 0) \<and>
   FAIL_IF_MINUS_ONE False num s =
     Inr (if num \<noteq> 0 then Goto_finally else Fallthrough, s) \<and>
   FAIL_IF_MINUS_ONE False 0 s = Inr (Fallthrough, s) \<and>
   (\<forall>c s'. FAIL_IF_MINUS_ONE dbg num s = Inr (c, s') \<longrightarrow>
      (c = Goto_finally) = (num \<noteq> 0))"
  by (cases dbg)
    (auto simp add: FAIL_IF_MINUS_ONE_plain FAIL_IF_MINUS_ONE_debug transfers_def)

theorem C4_FAIL_IF_MINUS_ONE_iff_nonzero_witness:
  "FAIL_IF_MINUS_ONE False (- 1) c0 = Inr (Goto_finally, c0) \<and>
   transfers (FAIL_IF_MINUS_ONE False (- 1) c0) \<and>
   (- 1 :: errcode) \<noteq> 0 \<and>
   FAIL_IF_MINUS_ONE False 0 c0 = Inr (Fallthrough, c0)"
  using C4_FAIL_IF_MINUS_ONE_iff_nonzero [of "- 1" c0 False]
  by (simp add: transfers_def)

text \<open>
  C7: \<^verbatim>\<open>FAIL_IF_NULL(ref)\<close> transfers control to the cleanup point if and only if
  \<open>ref\<close> is \<^verbatim>\<open>NULL\<close>; for a pointer that is not null it has no effect. This is so
  in the build without \<^verbatim>\<open>DEBUG_F\<close>, and in every build in which the statement
  compiles.
\<close>

theorem C7_FAIL_IF_NULL_iff_null:
  "transfers (FAIL_IF_NULL False ref s) = (ref = NULL) \<and>
   FAIL_IF_NULL False NULL s = Inr (Goto_finally, s) \<and>
   (ref \<noteq> NULL \<longrightarrow> FAIL_IF_NULL False ref s = Inr (Fallthrough, s)) \<and>
   (\<forall>c s'. FAIL_IF_NULL dbg ref s = Inr (c, s') \<longrightarrow>
      (c = Goto_finally) = (ref = NULL) \<and> (ref \<noteq> NULL \<longrightarrow> s' = s))"
  by (cases dbg)
    (auto simp add: FAIL_IF_NULL_plain FAIL_IF_NULL_debug transfers_def)

theorem C7_FAIL_IF_NULL_iff_null_witness:
  "(0x1000 :: ptr) \<noteq> NULL \<and>
   FAIL_IF_NULL False 0x1000 c0 = Inr (Fallthrough, c0) \<and>
   \<not> transfers (FAIL_IF_NULL False 0x1000 c0) \<and>
   FAIL_IF_NULL False NULL c0 = Inr (Goto_finally, c0)"
  using C7_FAIL_IF_NULL_iff_null [of "0x1000" c0 False]
  by (simp add: NULL_def transfers_def)

text \<open>
  C8: \<^verbatim>\<open>FAIL_IF_ERR_OCCURRED()\<close> transfers control to the cleanup point if and only
  if the error indicator (\<^verbatim>\<open>PyErr_Occurred\<close>) is set at the time of the call, and in
  either case it has no other effect: the state after it, the error indicator
  included, is the state before it. This is so in the build without \<^verbatim>\<open>DEBUG_F\<close>,
  and in every build in which the statement compiles.
\<close>

theorem C8_FAIL_IF_ERR_OCCURRED_only_transfers:
  "transfers (FAIL_IF_ERR_OCCURRED False s) = (PyErr_Occurred s \<noteq> NULL) \<and>
   FAIL_IF_ERR_OCCURRED False s =
     Inr (if PyErr_Occurred s \<noteq> NULL then Goto_finally else Fallthrough, s) \<and>
   (\<forall>c s'. FAIL_IF_ERR_OCCURRED dbg s = Inr (c, s') \<longrightarrow>
      (c = Goto_finally) = (PyErr_Occurred s \<noteq> NULL) \<and> s' = s \<and>
      PyErr_Occurred s' = PyErr_Occurred s)"
  by (cases dbg)
    (auto simp add: FAIL_IF_ERR_OCCURRED_plain FAIL_IF_ERR_OCCURRED_debug transfers_def)

theorem C8_FAIL_IF_ERR_OCCURRED_only_transfers_witness:
  "PyErr_Occurred c_err \<noteq> NULL \<and>
   FAIL_IF_ERR_OCCURRED False c_err = Inr (Goto_finally, c_err) \<and>
   transfers (FAIL_IF_ERR_OCCURRED False c_err) \<and>
   PyErr_Occurred c0 = NULL \<and>
   FAIL_IF_ERR_OCCURRED False c0 = Inr (Fallthrough, c0) \<and>
   \<not> transfers (FAIL_IF_ERR_OCCURRED False c0)"
proof -
  note iff = C8_FAIL_IF_ERR_OCCURRED_only_transfers [of c_err False, THEN conjunct1]
  note res = C8_FAIL_IF_ERR_OCCURRED_only_transfers [of c_err False, THEN conjunct2, THEN conjunct1]
  note iff0 = C8_FAIL_IF_ERR_OCCURRED_only_transfers [of c0 False, THEN conjunct1]
  note res0 = C8_FAIL_IF_ERR_OCCURRED_only_transfers [of c0 False, THEN conjunct2, THEN conjunct1]
  have a: "transfers (FAIL_IF_ERR_OCCURRED False c_err)"
    by (simp only: iff c_err_set not_False_eq_True)
  have b: "FAIL_IF_ERR_OCCURRED False c_err = Inr (Goto_finally, c_err)"
    by (simp only: res c_err_set if_True not_False_eq_True)
  have c: "\<not> transfers (FAIL_IF_ERR_OCCURRED False c0)"
    by (simp only: iff0 c0_clear simp_thms)
  have d: "FAIL_IF_ERR_OCCURRED False c0 = Inr (Fallthrough, c0)"
    by (simp only: res0 c0_clear simp_thms if_False)
  show ?thesis
    by (intro conjI c_err_set c0_clear a b c d)
qed

text \<open>
  C9: with \<^verbatim>\<open>DEBUG_F\<close>, every \<^verbatim>\<open>FAIL()\<close> sends one message to \<^verbatim>\<open>log_error\<close>
  and then transfers control to the cleanup point, as the header's comment says
  (\<^verbatim>\<open>FAIL() -- unconditionally goto finally; (but also log it with console.error if
  DEBUG_F is enabled)\<close>). The definition under \<^verbatim>\<open>#ifdef DEBUG_F\<close> ends in
  \<^verbatim>\<open>goto finally } while (0)\<close>, without \<^verbatim>\<open>;\<close> after the jump: a use of
  \<^verbatim>\<open>FAIL()\<close>, alone or through one of the three other macros, does not compile, so
  nothing is logged and no control is transferred.
\<close>

theorem C9_FAIL_with_DEBUG_F_does_not_compile:
  "compile_block (FAIL_items True) = (Inl Syntax_error :: compile_error + 'a c_stmt) \<and>
   FAIL True (s :: 'a c_state_scheme) = Inl Syntax_error \<and>
   \<not> transfers (FAIL True s) \<and>
   FAIL_IF_NULL True ref s = Inl Syntax_error \<and>
   FAIL_IF_MINUS_ONE True num s = Inl Syntax_error \<and>
   FAIL_IF_ERR_OCCURRED True s = Inl Syntax_error"
  by (simp add: compile_FAIL_debug FAIL_debug FAIL_IF_NULL_debug FAIL_IF_MINUS_ONE_debug
      FAIL_IF_ERR_OCCURRED_debug transfers_def)

text \<open>
  C10: in the build without \<^verbatim>\<open>DEBUG_F\<close>, each failure macro decides on its
  condition and leaves the whole state as it was (no call is made, so nothing is logged
  and nothing allocated; the error indicator and every variable are untouched); when
  the condition does not hold the statement falls through.
\<close>

theorem C10_plain_build_changes_no_state:
  "FAIL False s = Inr (Goto_finally, s) \<and>
   FAIL_IF_NULL False ref s = Inr (if ref = NULL then Goto_finally else Fallthrough, s) \<and>
   FAIL_IF_MINUS_ONE False num s =
     Inr (if num \<noteq> 0 then Goto_finally else Fallthrough, s) \<and>
   FAIL_IF_ERR_OCCURRED False s =
     Inr (if PyErr_Occurred s \<noteq> NULL then Goto_finally else Fallthrough, s)"
  by (simp add: FAIL_plain FAIL_IF_NULL_plain FAIL_IF_MINUS_ONE_plain
      FAIL_IF_ERR_OCCURRED_plain)

end
